theory Spec2Isabelle
  imports Complex_Main "HOL-Library.AList"
begin

section \<open>Python values shared by the engine\<close>

text \<open>
  Strings are byte strings (\<open>char list\<close>); the model covers ASCII input. Exceptions are
  values of \<open>exn\<close>; a computation that may raise returns \<open>exn + 'a\<close> with \<open>Inl\<close> the
  exception. \<open>CommandParseError\<close> carries its message and its \<open>__cause__\<close> (set by
  \<open>raise ... from e\<close>). \<open>OtherError\<close> stands for any exception raised by application
  code (actions and tasks).
\<close>

datatype validation_error = ValidationError string

datatype exn =
    CommandParseError string "validation_error option"
  | NotImplementedError
  | ValueError string
  | OtherError string

text \<open>
  The objects that can appear as a field annotation: a plain class (\<open>int\<close>, \<open>str\<close>,
  \<open>list\<close>, ...), a \<open>types.GenericAlias\<close> such as \<open>list[int]\<close> (origin and arguments),
  and a \<open>typing\<close> alias such as \<open>typing.List[int]\<close> or \<open>typing.Optional[int]\<close>, which
  is not an instance of \<open>types.GenericAlias\<close>.
\<close>

datatype pytype =
    PyClass string
  | GenericAlias pytype "pytype list"
  | TypingAlias pytype "pytype list"

text \<open>What the parser puts into the dictionary handed to validation.\<close>

datatype raw = RNone | RStr string | RList "string list"

text \<open>
  A match object of the \<open>regex\<close> library, as far as the parser reads it: the named groups
  of the pattern, each with all its captures in match order (none when the group did not
  participate in the match). \<open>name in match.groupdict()\<close> holds for every named group of
  the pattern, \<open>match.captures(name)\<close> is the list of captures, and \<open>match.group(name)\<close>
  is the last capture, or \<open>None\<close> when there is none.
\<close>

record rmatch =
  groups :: "(string \<times> string list) list"

definition match_group :: "string list \<Rightarrow> raw" where
  "match_group cs = (case cs of [] \<Rightarrow> RNone | _ # _ \<Rightarrow> RStr (last cs))"

text \<open>
  A pydantic model class, opaque but for what the engine reads: its docstring, its
  \<open>model_fields\<close> (an ordered dictionary) and \<open>model_validate\<close>, which returns the
  validated object or raises \<open>pydantic.ValidationError\<close>.
\<close>

record field_info =
  annotation :: pytype
  description :: "string option"

record 's schema =
  schema_doc :: "string option"
  model_fields :: "(string \<times> field_info) list"
  model_validate :: "(string \<times> raw) list \<Rightarrow> validation_error + 's"

text \<open>The shared data object together with the lines printed so far.\<close>

record 'd world =
  data :: 'd
  stdout :: "string list"

definition py_print :: "string \<Rightarrow> 'd world \<Rightarrow> 'd world" where
  "py_print s w = w\<lparr>stdout := stdout w @ [s]\<rparr>"

text \<open>Formatting an \<open>Optional[str]\<close> inside an f-string.\<close>

definition py_format :: "string option \<Rightarrow> string" where
  "py_format d = (case d of None \<Rightarrow> ''None'' | Some s \<Rightarrow> s)"

definition await_then :: "exn + 'a \<Rightarrow> ('a \<Rightarrow> exn + 'b) \<Rightarrow> exn + 'b" where
  "await_then r k = (case r of Inl e \<Rightarrow> Inl e | Inr x \<Rightarrow> k x)"

section \<open>parser.py\<close>

text \<open>
  \<open>CommandParser\<close> is the base class; \<open>RegexCommandParser\<close> holds the pattern and the
  compiled pattern, of which only \<open>fullmatch\<close> is used.
\<close>

datatype parser =
    CommandParser
  | RegexCommandParser string "string \<Rightarrow> rmatch option"

definition type_is_list :: "pytype \<Rightarrow> bool" where
  "type_is_list t =
     (t = PyClass ''list'' \<or>
      (case t of GenericAlias origin args \<Rightarrow> origin = PyClass ''list'' | _ \<Rightarrow> False))"

text \<open>One step of the dictionary comprehension that builds \<open>params\<close>.\<close>

definition params_entry :: "rmatch \<Rightarrow> string \<times> field_info \<Rightarrow> (string \<times> raw) option" where
  "params_entry m nf =
     (case map_of (groups m) (fst nf) of
        None \<Rightarrow> None
      | Some cs \<Rightarrow>
          Some (fst nf, if type_is_list (annotation (snd nf)) then RList cs else match_group cs))"

definition raw_params :: "'s schema \<Rightarrow> rmatch \<Rightarrow> (string \<times> raw) list" where
  "raw_params schema m = List.map_filter (params_entry m) (model_fields schema)"

fun parser_parse :: "parser \<Rightarrow> 's schema \<Rightarrow> string \<Rightarrow> exn + 's" where
  "parser_parse CommandParser schema command = Inl NotImplementedError"
| "parser_parse (RegexCommandParser pattern cpattern) schema command =
     (case cpattern command of
        None \<Rightarrow> Inl (CommandParseError (''Command does not match pattern: '' @ pattern) None)
      | Some m \<Rightarrow>
          (case model_validate schema (raw_params schema m) of
             Inl e \<Rightarrow> Inl (CommandParseError ''Parameters failed to validate.'' (Some e))
           | Inr s \<Rightarrow> Inr s))"

fun parser_help_message :: "parser \<Rightarrow> string" where
  "parser_help_message CommandParser = ''No help message available.''"
| "parser_help_message (RegexCommandParser pattern cpattern) = ''Pattern: '' @ pattern"

section \<open>command.py\<close>

record ('d, 's) action =
  action_doc :: "string option"
  action_call :: "'d world \<Rightarrow> 's \<Rightarrow> exn + 'd world"

record ('d, 's) command =
  schema :: "'s schema"
  parser :: parser
  action :: "('d, 's) action option"

definition Command :: "'s schema \<Rightarrow> parser \<Rightarrow> ('d, 's) command" where
  "Command sch p = \<lparr>schema = sch, parser = p, action = None\<rparr>"

definition register_action :: "('d, 's) command \<Rightarrow> ('d, 's) action \<Rightarrow> ('d, 's) command" where
  "register_action self a = self\<lparr>action := Some a\<rparr>"

definition command_parse :: "('d, 's) command \<Rightarrow> string \<Rightarrow> exn + 's" where
  "command_parse self line = parser_parse (parser self) (schema self) line"

definition no_description :: string where
  "no_description = ''No description available.''"

definition tab :: string where
  "tab = replicate 4 (CHR '' '')"

definition param_docs :: "('d, 's) command \<Rightarrow> (string \<times> string) list" where
  "param_docs self =
     map (\<lambda>nf. (fst nf, case description (snd nf) of None \<Rightarrow> no_description | Some d \<Rightarrow> d))
       (model_fields (schema self))"

definition command_help_message :: "('d, 's) command \<Rightarrow> string" where
  "command_help_message self =
     (let command_doc = (case action self of
                           None \<Rightarrow> no_description
                         | Some a \<Rightarrow> py_format (action_doc a))
      in command_doc @ [CHR 0x0A, CHR 0x0A] @ ''Usage:'' @ [CHR 0x0A] @ tab
           @ parser_help_message (parser self) @ [CHR 0x0A, CHR 0x0A] @ ''Parameters:''
           @ concat (map (\<lambda>nd. [CHR 0x0A] @ tab @ fst nd @ '': '' @ snd nd) (param_docs self)))"

definition command_execute :: "('d, 's) command \<Rightarrow> 'd world \<Rightarrow> 's \<Rightarrow> exn + 'd world" where
  "command_execute self w params =
     (case action self of None \<Rightarrow> Inr w | Some a \<Rightarrow> action_call a w params)"

text \<open>
  \<open>create_command\<close>: the \<open>regex\<close> argument is given with its compiled pattern, since
  compilation is the library's.
\<close>

definition create_command ::
  "parser option \<Rightarrow> (string \<times> (string \<Rightarrow> rmatch option)) option
     \<Rightarrow> exn + ('s schema \<Rightarrow> ('d, 's) command)" where
  "create_command p rx =
     (case p of
        Some p' \<Rightarrow> Inr (\<lambda>sch. Command sch p')
      | None \<Rightarrow>
          (case rx of
             None \<Rightarrow> Inl (ValueError ''Either parser or regex must be provided.'')
           | Some (pattern, cpattern) \<Rightarrow> Inr (\<lambda>sch. Command sch (RegexCommandParser pattern cpattern))))"

section \<open>game.py\<close>

datatype task_t = pre_command | post_command | background

type_synonym 'd task = "'d world \<Rightarrow> exn + 'd world"

record game_config =
  background_delay :: real
  show_help :: bool

definition GameConfig :: game_config where
  "GameConfig = \<lparr>background_delay = 1, show_help = True\<rparr>"

text \<open>
  A game holds its configuration, the registry of commands in registration order (a
  Python dictionary) and the tasks; its attribute \<open>dataclass\<close> is the type \<open>'d\<close> of the
  data. \<open>background_loop\<close> and \<open>run\<close>, which schedule the background task beside the
  input loop, are about timing and interleaving and have no counterpart here.
\<close>

record ('d, 's) game =
  config :: game_config
  commands :: "(string \<times> ('d, 's) command) list"
  tasks :: "task_t \<Rightarrow> 'd task option"

definition Game :: "game_config \<Rightarrow> ('d, 's) game" where
  "Game cfg = \<lparr>config = cfg, commands = [], tasks = (\<lambda>k. None)\<rparr>"

text \<open>
  \<open>register_command(name)\<close> checks the name and returns the decorator; the decorator
  stores the command when it is applied.
\<close>

definition decorator :: "string \<Rightarrow> ('d, 's) command \<Rightarrow> ('d, 's) game \<Rightarrow> ('d, 's) game" where
  "decorator name c self = self\<lparr>commands := AList.update name c (commands self)\<rparr>"

definition register_command ::
  "('d, 's) game \<Rightarrow> string \<Rightarrow> exn + (('d, 's) command \<Rightarrow> ('d, 's) game \<Rightarrow> ('d, 's) game)" where
  "register_command self name =
     (if show_help (config self) \<and> name = ''help'' then
        Inl (ValueError ''Cannot register a command named \"help\" when show_help is True.'')
      else if name \<in> fst ` set (commands self) then
        Inl (ValueError (''Command with name \"'' @ name @ ''\" already registered.''))
      else Inr (decorator name))"

text \<open>
  The decorated use \<open>@game.register_command(name)\<close> on a command: the outcome of the
  call and the game afterwards.
\<close>

definition registered ::
  "('d, 's) game \<Rightarrow> string \<Rightarrow> ('d, 's) command \<Rightarrow> exn option \<times> ('d, 's) game" where
  "registered self name c =
     (case register_command self name of
        Inl e \<Rightarrow> (Some e, self)
      | Inr dec \<Rightarrow> (None, dec c self))"

definition register_task :: "('d, 's) game \<Rightarrow> task_t \<Rightarrow> 'd task \<Rightarrow> ('d, 's) game" where
  "register_task self task_type task = self\<lparr>tasks := (tasks self)(task_type \<mapsto> task)\<rparr>"

definition command_docs :: "('d, 's) game \<Rightarrow> (string \<times> string) list" where
  "command_docs self =
     map (\<lambda>nc. (fst nc, case schema_doc (schema (snd nc)) of None \<Rightarrow> no_description | Some d \<Rightarrow> d))
       (commands self)"

definition game_help_message :: "('d, 's) game \<Rightarrow> string" where
  "game_help_message self =
     ''Commands:'' @ concat (map (\<lambda>nd. [CHR 0x0A] @ tab @ fst nd @ '': '' @ snd nd) (command_docs self))"

text \<open>\<open>str.isspace\<close> on ASCII, and \<open>str.split(maxsplit=1)\<close>.\<close>

definition py_isspace :: "char \<Rightarrow> bool" where
  "py_isspace c = (c \<in> set [CHR 0x09, CHR 0x0A, CHR 0x0B, CHR 0x0C, CHR 0x0D,
                            CHR 0x1C, CHR 0x1D, CHR 0x1E, CHR 0x1F, CHR 0x20])"

definition py_split1 :: "string \<Rightarrow> string list" where
  "py_split1 s =
     (let s1 = dropWhile py_isspace s in
      if s1 = [] then []
      else
        (let tok = takeWhile (\<lambda>c. \<not> py_isspace c) s1;
             rest = dropWhile py_isspace (dropWhile (\<lambda>c. \<not> py_isspace c) s1)
         in if rest = [] then [tok] else [tok, rest]))"

definition not_found :: "string \<Rightarrow> string" where
  "not_found name = ''Command \"'' @ name @ ''\" not found.''"

definition run_task :: "('d, 's) game \<Rightarrow> task_t \<Rightarrow> 'd task" where
  "run_task self k w = (case tasks self k of None \<Rightarrow> Inr w | Some t \<Rightarrow> t w)"

text \<open>The body of the \<open>while True\<close> loop of \<open>user_loop\<close>, on the line read.\<close>

definition user_loop_body :: "('d, 's) game \<Rightarrow> string \<Rightarrow> 'd task" where
  "user_loop_body self line w =
     (case py_split1 line of
        [] \<Rightarrow> Inr w
      | tok # rest \<Rightarrow>
          if tok = ''help'' \<and> show_help (config self) then
            (case rest of
               arg # _ \<Rightarrow>
                 (case map_of (commands self) arg of
                    Some c \<Rightarrow> Inr (py_print (command_help_message c) w)
                  | None \<Rightarrow> Inr (py_print (not_found arg) w))
             | [] \<Rightarrow> Inr (py_print (game_help_message self) w))
          else
            (case map_of (commands self) tok of
               Some c \<Rightarrow>
                 (case command_parse c (case rest of arg # _ \<Rightarrow> arg | [] \<Rightarrow> []) of
                    Inl e \<Rightarrow>
                      (case e of
                         CommandParseError msg cause \<Rightarrow> Inr (py_print msg w)
                       | _ \<Rightarrow> Inl e)
                  | Inr params \<Rightarrow>
                      await_then (run_task self pre_command w) (\<lambda>w1.
                      await_then (command_execute c w1 params) (\<lambda>w2.
                      run_task self post_command w2)))
             | None \<Rightarrow> Inr (py_print (not_found tok) w)))"

text \<open>
  The loop itself never returns; it is run here on the lines the console supplies, and
  stops only when an exception escapes the body.
\<close>

fun user_loop :: "('d, 's) game \<Rightarrow> string list \<Rightarrow> 'd task" where
  "user_loop self [] w = Inr w"
| "user_loop self (line # lines) w =
     (case user_loop_body self line w of Inl e \<Rightarrow> Inl e | Inr w' \<Rightarrow> user_loop self lines w')"

text \<open>
  The setup phase of a program: a sequence of decorated registrations on a fresh game.
  An exception aborts it.
\<close>

datatype ('d, 's) setup_op =
    RegisterCommand string "('d, 's) command"
  | RegisterTask task_t "'d task"

fun startup :: "('d, 's) game \<Rightarrow> ('d, 's) setup_op list \<Rightarrow> exn + ('d, 's) game" where
  "startup g [] = Inr g"
| "startup g (RegisterCommand name c # ops) =
     (case registered g name c of
        (Some e, _) \<Rightarrow> Inl e
      | (None, g') \<Rightarrow> startup g' ops)"
| "startup g (RegisterTask k t # ops) = startup (register_task g k t) ops"

section \<open>examples/example_game.py\<close>

record example_data =
  timer :: int
  n_actions :: int
  counter :: int

text \<open>The validated objects of the three command schemas.\<close>

datatype example_params =
    AddCommand_params int
  | AddMultipleCommand_params "int list"
  | ViewCommand_params string

definition is_digit :: "char \<Rightarrow> bool" where
  "is_digit c = (c \<in> set ''0123456789'')"

definition is_digit_dash :: "char \<Rightarrow> bool" where
  "is_digit_dash c = (is_digit c \<or> c = CHR ''-'')"

definition regex_space :: "char \<Rightarrow> bool" where
  "regex_space c = (c \<in> set [CHR 0x20, CHR 0x09, CHR 0x0A, CHR 0x0D, CHR 0x0C, CHR 0x0B])"

definition digits_value :: "string \<Rightarrow> int" where
  "digits_value ds = foldl (\<lambda>a c. 10 * a + (int (of_char c) - 48)) 0 ds"

text \<open>
  pydantic's conversion of a string to \<open>int\<close>, on the strings of digits and dashes that
  the patterns of this game let through: an optional minus sign and at least one digit.
\<close>

definition str_as_int :: "string \<Rightarrow> int option" where
  "str_as_int s =
     (case s of
        [] \<Rightarrow> None
      | c # ds \<Rightarrow>
          if c = CHR ''-'' then
            (if ds \<noteq> [] \<and> list_all is_digit ds then Some (- digits_value ds) else None)
          else if list_all is_digit s then Some (digits_value s) else None)"

text \<open>\<open>str\<close> of an \<open>int\<close>, for \<open>print\<close>.\<close>

fun str_nat :: "nat \<Rightarrow> string" where
  "str_nat n =
     (if n < 10 then [char_of (48 + n)] else str_nat (n div 10) @ [char_of (48 + n mod 10)])"

definition str_int :: "int \<Rightarrow> string" where
  "str_int i = (if i < 0 then CHR ''-'' # str_nat (nat (- i)) else str_nat (nat i))"

definition example_data0 :: example_data where
  "example_data0 = \<lparr>timer = 0, n_actions = 0, counter = 0\<rparr>"

definition background_task :: "example_data task" where
  "background_task w = Inr (w\<lparr>data := (data w)\<lparr>timer := timer (data w) + 1\<rparr>\<rparr>)"

definition pre_command_task :: "example_data task" where
  "pre_command_task w = Inr (w\<lparr>data := (data w)\<lparr>n_actions := n_actions (data w) + 1\<rparr>\<rparr>)"

subsection \<open>The command add\<close>

definition add_pattern :: string where
  "add_pattern = ''(?P<value>['' @ [CHR 0x5C] @ ''d-]+)''"

text \<open>\<open>fullmatch\<close> of the compiled pattern: a non-empty line of digits and dashes.\<close>

definition add_fullmatch :: "string \<Rightarrow> rmatch option" where
  "add_fullmatch line =
     (if line \<noteq> [] \<and> list_all is_digit_dash line
      then Some \<lparr>groups = [(''value'', [line])]\<rparr> else None)"

definition int_field :: "string \<Rightarrow> (string \<times> raw) list \<Rightarrow> validation_error + int" where
  "int_field name ps =
     (case map_of ps name of
        Some (RStr s) \<Rightarrow>
          (case str_as_int s of Some i \<Rightarrow> Inr i | None \<Rightarrow> Inl (ValidationError name))
      | _ \<Rightarrow> Inl (ValidationError name))"

definition AddCommand_schema :: "example_params schema" where
  "AddCommand_schema =
     \<lparr>schema_doc = Some ''A command to add a value to the counter.'',
      model_fields =
        [(''value'', \<lparr>annotation = PyClass ''int'',
                       description = Some ''The value to add to the counter.''\<rparr>)],
      model_validate = (\<lambda>ps. map_sum id AddCommand_params (int_field ''value'' ps))\<rparr>"

definition add_action :: "(example_data, example_params) action" where
  "add_action =
     \<lparr>action_doc = Some ''Adds the value to the counter.'',
      action_call = (\<lambda>w params.
        case params of
          AddCommand_params v \<Rightarrow> Inr (w\<lparr>data := (data w)\<lparr>counter := counter (data w) + v\<rparr>\<rparr>)
        | _ \<Rightarrow> Inl (OtherError ''AttributeError''))\<rparr>"

definition AddCommand :: "(example_data, example_params) command" where
  "AddCommand =
     register_action (Command AddCommand_schema (RegexCommandParser add_pattern add_fullmatch))
       add_action"

subsection \<open>The command add-multiple\<close>

definition add_multiple_pattern :: string where
  "add_multiple_pattern =
     ''(?:(?P<values>['' @ [CHR 0x5C] @ ''d-]+)'' @ [CHR 0x5C] @ ''s{0,1})+''"

text \<open>
  The captures of \<open>values\<close> on a full match: the maximal runs of digits and dashes, each
  followed by at most one whitespace character. The arguments are the run being read
  and the captures made so far.
\<close>

fun values_captures :: "string \<Rightarrow> string list \<Rightarrow> string \<Rightarrow> string list option" where
  "values_captures cur caps [] =
     (if cur = [] \<and> caps = [] then None else Some (caps @ (if cur = [] then [] else [cur])))"
| "values_captures cur caps (c # cs) =
     (if is_digit_dash c then values_captures (cur @ [c]) caps cs
      else if regex_space c \<and> cur \<noteq> [] then values_captures [] (caps @ [cur]) cs
      else None)"

definition add_multiple_fullmatch :: "string \<Rightarrow> rmatch option" where
  "add_multiple_fullmatch line =
     map_option (\<lambda>caps. \<lparr>groups = [(''values'', caps)]\<rparr>) (values_captures [] [] line)"

definition int_list_field :: "string \<Rightarrow> (string \<times> raw) list \<Rightarrow> validation_error + int list" where
  "int_list_field name ps =
     (case map_of ps name of
        Some (RList ss) \<Rightarrow>
          (case those (map str_as_int ss) of
             Some is \<Rightarrow> Inr is
           | None \<Rightarrow> Inl (ValidationError name))
      | _ \<Rightarrow> Inl (ValidationError name))"

definition AddMultipleCommand_schema :: "example_params schema" where
  "AddMultipleCommand_schema =
     \<lparr>schema_doc = Some ''A command to add multiple values to the counter.'',
      model_fields =
        [(''values'', \<lparr>annotation = GenericAlias (PyClass ''list'') [PyClass ''int''],
                        description = Some ''The values to add to the counter.''\<rparr>)],
      model_validate = (\<lambda>ps. map_sum id AddMultipleCommand_params (int_list_field ''values'' ps))\<rparr>"

definition addmul_action :: "(example_data, example_params) action" where
  "addmul_action =
     \<lparr>action_doc = Some ''Adds the values to the counter.'',
      action_call = (\<lambda>w params.
        case params of
          AddMultipleCommand_params vs \<Rightarrow>
            Inr (w\<lparr>data := (data w)\<lparr>counter := counter (data w) + sum_list vs\<rparr>\<rparr>)
        | _ \<Rightarrow> Inl (OtherError ''AttributeError''))\<rparr>"

definition AddMultipleCommand :: "(example_data, example_params) command" where
  "AddMultipleCommand =
     register_action
       (Command AddMultipleCommand_schema
          (RegexCommandParser add_multiple_pattern add_multiple_fullmatch))
       addmul_action"

subsection \<open>The command view\<close>

definition view_pattern :: string where
  "view_pattern = ''(?P<value>counter|timer|n_actions)''"

definition view_fullmatch :: "string \<Rightarrow> rmatch option" where
  "view_fullmatch line =
     (if line \<in> set [''counter'', ''timer'', ''n_actions'']
      then Some \<lparr>groups = [(''value'', [line])]\<rparr> else None)"

definition str_field :: "string \<Rightarrow> (string \<times> raw) list \<Rightarrow> validation_error + string" where
  "str_field name ps =
     (case map_of ps name of
        Some (RStr s) \<Rightarrow> Inr s
      | _ \<Rightarrow> Inl (ValidationError name))"

definition ViewCommand_schema :: "example_params schema" where
  "ViewCommand_schema =
     \<lparr>schema_doc = Some ''A command to view a value.'',
      model_fields =
        [(''value'', \<lparr>annotation = PyClass ''str'',
                       description =
                         Some ''The value to view. Can be \"counter\", \"timer\", or \"n_actions\".''\<rparr>)],
      model_validate = (\<lambda>ps. map_sum id ViewCommand_params (str_field ''value'' ps))\<rparr>"

definition getattr :: "example_data \<Rightarrow> string \<Rightarrow> int option" where
  "getattr d name =
     (if name = ''counter'' then Some (counter d)
      else if name = ''timer'' then Some (timer d)
      else if name = ''n_actions'' then Some (n_actions d)
      else None)"

definition view_action :: "(example_data, example_params) action" where
  "view_action =
     \<lparr>action_doc = Some ''Views the value.'',
      action_call = (\<lambda>w params.
        case params of
          ViewCommand_params v \<Rightarrow>
            (case getattr (data w) v of
               Some i \<Rightarrow> Inr (py_print (str_int i) w)
             | None \<Rightarrow> Inl (OtherError ''AttributeError''))
        | _ \<Rightarrow> Inl (OtherError ''AttributeError''))\<rparr>"

definition ViewCommand :: "(example_data, example_params) command" where
  "ViewCommand =
     register_action (Command ViewCommand_schema (RegexCommandParser view_pattern view_fullmatch))
       view_action"

subsection \<open>The game\<close>

definition example_setup :: "(example_data, example_params) setup_op list" where
  "example_setup =
     [RegisterTask background background_task,
      RegisterTask pre_command pre_command_task,
      RegisterCommand ''add'' AddCommand,
      RegisterCommand ''add-multiple'' AddMultipleCommand,
      RegisterCommand ''view'' ViewCommand]"

definition ExampleGame :: "(example_data, example_params) game" where
  "ExampleGame =
     \<lparr>config = GameConfig,
      commands = [(''add'', AddCommand), (''add-multiple'', AddMultipleCommand),
                  (''view'', ViewCommand)],
      tasks = [background \<mapsto> background_task, pre_command \<mapsto> pre_command_task]\<rparr>"

section \<open>Further programs on the engine\<close>

text \<open>
  A command whose value is optional, with a default in the schema:
  \<^verbatim>\<open>
  @create_command(regex=r"(?P<value>[\d-]+)?")
  class StepCommand(pydantic.BaseModel):
      value: int = 1
  \<close>
  The line may be empty, and then the group \<open>value\<close> takes no part in the match.
\<close>

definition step_pattern :: string where
  "step_pattern = ''(?P<value>['' @ [CHR 0x5C] @ ''d-]+)?''"

definition step_fullmatch :: "string \<Rightarrow> rmatch option" where
  "step_fullmatch line =
     (if line = [] then Some \<lparr>groups = [(''value'', [])]\<rparr> else add_fullmatch line)"

definition StepCommand_schema :: "example_params schema" where
  "StepCommand_schema =
     \<lparr>schema_doc = None,
      model_fields = [(''value'', \<lparr>annotation = PyClass ''int'', description = None\<rparr>)],
      model_validate = (\<lambda>ps.
        case map_of ps ''value'' of
          None \<Rightarrow> Inr (AddCommand_params 1)
        | Some _ \<Rightarrow> map_sum id AddCommand_params (int_field ''value'' ps))\<rparr>"

definition StepCommand :: "(example_data, example_params) command" where
  "StepCommand = Command StepCommand_schema (RegexCommandParser step_pattern step_fullmatch)"


text \<open>
  A game whose two command tasks and whose action each print one letter; the action has
  no docstring.
\<close>

definition says :: "string \<Rightarrow> example_data task" where
  "says s w = Inr (py_print s w)"

definition LoggedCommand :: "(example_data, example_params) command" where
  "LoggedCommand =
     register_action (Command AddCommand_schema (RegexCommandParser add_pattern add_fullmatch))
       \<lparr>action_doc = None, action_call = (\<lambda>w params. says ''A'' w)\<rparr>"

definition logged_setup :: "(example_data, example_params) setup_op list" where
  "logged_setup =
     [RegisterTask pre_command (says ''B''),
      RegisterTask post_command (says ''H''),
      RegisterCommand ''add'' LoggedCommand]"

definition LoggedGame :: "(example_data, example_params) game" where
  "LoggedGame =
     \<lparr>config = GameConfig,
      commands = [(''add'', LoggedCommand)],
      tasks = [pre_command \<mapsto> says ''B'', post_command \<mapsto> says ''H'']\<rparr>"

definition world0 :: "example_data world" where
  "world0 = \<lparr>data = example_data0, stdout = []\<rparr>"

section \<open>Facts about the setup phase and the dictionaries\<close>

lemma update_absent: "k \<notin> fst ` set al \<Longrightarrow> AList.update k v al = al @ [(k, v)]"
  by (induction al) auto

lemma registered_config: "registered g name c = (r, g') \<Longrightarrow> config g' = config g"
  by (auto simp: registered_def register_command_def decorator_def split: if_splits)

lemma registered_help_free:
  assumes "registered g name c = (None, g')"
    and "show_help (config g) \<longrightarrow> ''help'' \<notin> fst ` set (commands g)"
  shows "show_help (config g') \<longrightarrow> ''help'' \<notin> fst ` set (commands g')"
proof -
  from assms(1) have "commands g' = AList.update name c (commands g)"
    and "config g' = config g" and "\<not> (show_help (config g) \<and> name = ''help'')"
    by (auto simp: registered_def register_command_def decorator_def split: if_splits)
  moreover have "fst ` set (AList.update name c (commands g)) = {name} \<union> fst ` set (commands g)"
    by (rule AList.dom_update)
  ultimately show ?thesis using assms(2) by auto
qed

lemma startup_config: "startup g ops = Inr g' \<Longrightarrow> config g' = config g"
proof (induction g ops rule: startup.induct)
  case (1 g)
  then show ?case by simp
next
  case (2 g name c ops)
  then show ?case
    by (auto split: prod.splits option.splits dest: registered_config)
next
  case (3 g k t ops)
  then show ?case by (simp add: register_task_def)
qed

lemma startup_help_free:
  assumes "startup g ops = Inr g'"
    and "show_help (config g) \<longrightarrow> ''help'' \<notin> fst ` set (commands g)"
  shows "show_help (config g') \<longrightarrow> ''help'' \<notin> fst ` set (commands g')"
  using assms
proof (induction g ops rule: startup.induct)
  case (1 g)
  then show ?case by simp
next
  case (2 g name c ops)
  from "2.prems"(1) obtain g1 where r: "registered g name c = (None, g1)"
    and s: "startup g1 ops = Inr g'"
    by (auto split: prod.splits option.splits)
  from registered_help_free [OF r "2.prems"(2)]
  have "show_help (config g1) \<longrightarrow> ''help'' \<notin> fst ` set (commands g1)" .
  with "2.IH" r s show ?case by simp
next
  case (3 g k t ops)
  then show ?case by (simp add: register_task_def)
qed

lemma fresh_game_help_free:
  assumes "startup (Game cfg) ops = Inr g"
  shows "show_help (config g) \<longrightarrow> ''help'' \<notin> fst ` set (commands g)"
  using startup_help_free [OF assms] by (simp add: Game_def)

lemma fresh_game_help_unbound:
  assumes "startup (Game cfg) ops = Inr g" and "show_help (config g)"
  shows "map_of (commands g) ''help'' = None"
  using fresh_game_help_free [OF assms(1)] assms(2) by (simp add: map_of_eq_None_iff)

lemma params_entry_key: "params_entry m nf = Some (k, v) \<Longrightarrow> k = fst nf"
  by (auto simp: params_entry_def split: option.splits)

lemma map_of_raw_params_absent:
  "map_of (groups m) name = None \<Longrightarrow> map_of (List.map_filter (params_entry m) fs) name = None"
  by (induction fs) (auto simp: params_entry_def split: option.splits)

lemma map_of_raw_params_present:
  assumes "distinct (map fst fs)" and "(name, f) \<in> set fs"
    and "map_of (groups m) name = Some cs"
  shows "map_of (List.map_filter (params_entry m) fs) name =
           Some (if type_is_list (annotation f) then RList cs else match_group cs)"
  using assms
proof (induction fs)
  case Nil
  then show ?case by simp
next
  case (Cons a fs)
  show ?case
  proof (cases "a = (name, f)")
    case True
    with Cons.prems(3) show ?thesis
      by (simp add: params_entry_def)
  next
    case False
    with Cons.prems have in_fs: "(name, f) \<in> set fs" and ne: "fst a \<noteq> name"
      by (auto simp: image_iff)
    from Cons.IH Cons.prems(1,3) in_fs
    have ih: "map_of (List.map_filter (params_entry m) fs) name =
                Some (if type_is_list (annotation f) then RList cs else match_group cs)"
      by simp
    show ?thesis
    proof (cases "params_entry m a")
      case None
      with ih show ?thesis by simp
    next
      case (Some kv)
      then have "fst kv = fst a" by (cases kv) (auto dest: params_entry_key)
      with Some ih ne show ?thesis by (cases kv) simp
    qed
  qed
qed

lemma example_startup: "startup (Game GameConfig) example_setup = Inr ExampleGame"
  by (simp add: example_setup_def ExampleGame_def registered_def register_command_def Game_def
        GameConfig_def decorator_def register_task_def)

lemma logged_startup: "startup (Game GameConfig) logged_setup = Inr LoggedGame"
  by (simp add: logged_setup_def LoggedGame_def registered_def register_command_def Game_def
        GameConfig_def decorator_def register_task_def)

lemma split_help_help: "py_split1 ''help help'' = [''help'', ''help'']"
  by (simp add: py_split1_def py_isspace_def)

lemma split_add_5: "py_split1 ''add 5'' = [''add'', ''5'']"
  by (simp add: py_split1_def py_isspace_def)

lemma split_add_abc: "py_split1 ''add abc'' = [''add'', ''abc'']"
  by (simp add: py_split1_def py_isspace_def)

lemma add_fullmatch_5: "add_fullmatch ''5'' = Some \<lparr>groups = [(''value'', [''5''])]\<rparr>"
  by (simp add: add_fullmatch_def is_digit_dash_def is_digit_def)

lemma add_fullmatch_dash: "add_fullmatch ''-'' = Some \<lparr>groups = [(''value'', [''-''])]\<rparr>"
  by (simp add: add_fullmatch_def is_digit_dash_def is_digit_def)

lemma add_fullmatch_abc: "add_fullmatch ''abc'' = None"
  by (simp add: add_fullmatch_def is_digit_dash_def is_digit_def)

lemma add_raw_params:
  "raw_params AddCommand_schema \<lparr>groups = [(''value'', cs)]\<rparr> = [(''value'', match_group cs)]"
  by (simp add: raw_params_def AddCommand_schema_def params_entry_def type_is_list_def)

lemma str_as_int_5: "str_as_int ''5'' = Some 5"
  by (simp add: str_as_int_def is_digit_def digits_value_def)

lemma str_as_int_dash: "str_as_int ''-'' = None"
  by (simp add: str_as_int_def)

lemma add_validate_5:
  "model_validate AddCommand_schema [(''value'', RStr ''5'')] = Inr (AddCommand_params 5)"
  by (simp add: AddCommand_schema_def int_field_def str_as_int_5)

lemma add_validate_dash:
  "model_validate AddCommand_schema [(''value'', RStr ''-'')] = Inl (ValidationError ''value'')"
  by (simp add: AddCommand_schema_def int_field_def str_as_int_dash)

lemma add_parse_5:
  "parser_parse (RegexCommandParser add_pattern add_fullmatch) AddCommand_schema ''5'' =
     Inr (AddCommand_params 5)"
  by (simp add: add_fullmatch_5 add_raw_params match_group_def add_validate_5)

lemma add_parse_dash:
  "parser_parse (RegexCommandParser add_pattern add_fullmatch) AddCommand_schema ''-'' =
     Inl (CommandParseError ''Parameters failed to validate.'' (Some (ValidationError ''value'')))"
  by (simp add: add_fullmatch_dash add_raw_params match_group_def add_validate_dash)

lemma add_parse_abc:
  "parser_parse (RegexCommandParser add_pattern add_fullmatch) AddCommand_schema ''abc'' =
     Inl (CommandParseError (''Command does not match pattern: '' @ add_pattern) None)"
  by (simp add: add_fullmatch_abc)

lemma type_is_list_int: "\<not> type_is_list (PyClass ''int'')"
  by (simp add: type_is_list_def)

lemma type_is_list_list_int: "type_is_list (GenericAlias (PyClass ''list'') [PyClass ''int''])"
  by (simp add: type_is_list_def)

lemma values_captures_1_2_3: "values_captures [] [] ''1 2 3'' = Some [''1'', ''2'', ''3'']"
  by code_simp


lemma registered_command_not_help:
  assumes "startup (Game cfg) ops = Inr g" and "map_of (commands g) tok = Some c"
  shows "(tok = ''help'' \<and> show_help (config g)) = False"
  using fresh_game_help_unbound [OF assms(1)] assms(2) by auto

lemma run_task_bound: "tasks g k = Some t \<Longrightarrow> run_task g k = t"
  by (rule ext) (simp add: run_task_def)

lemma logged_command_parse_5: "command_parse LoggedCommand ''5'' = Inr (AddCommand_params 5)"
  by (simp add: command_parse_def LoggedCommand_def register_action_def Command_def add_parse_5
        del: parser_parse.simps)

lemma add_command_parse_abc:
  "command_parse AddCommand ''abc'' =
     Inl (CommandParseError (''Command does not match pattern: '' @ add_pattern) None)"
  by (simp add: command_parse_def AddCommand_def register_action_def Command_def add_parse_abc
        del: parser_parse.simps)



lemma add_body_5:
  "user_loop_body ExampleGame ''add 5'' w =
     Inr (w\<lparr>data := (data w)\<lparr>n_actions := n_actions (data w) + 1,
                               counter := counter (data w) + 5\<rparr>\<rparr>)"
proof -
  have c: "map_of (commands ExampleGame) ''add'' = Some AddCommand"
    by (simp add: ExampleGame_def)
  have p: "command_parse AddCommand ''5'' = Inr (AddCommand_params 5)"
    by (simp add: command_parse_def AddCommand_def register_action_def Command_def add_parse_5
          del: parser_parse.simps)
  have t1: "tasks ExampleGame pre_command = Some pre_command_task"
    by (simp add: ExampleGame_def)
  have t2: "tasks ExampleGame post_command = None"
    by (simp add: ExampleGame_def)
  have a: "action AddCommand = Some add_action"
    by (simp add: AddCommand_def register_action_def)
  show ?thesis
    by (simp add: user_loop_body_def split_add_5 c p run_task_def t1 t2 command_execute_def a
          await_then_def pre_command_task_def add_action_def)
qed






section \<open>The regex parser\<close>

text \<open>
  Claim C1, as the code has it. \<open>RegexCommandParser.parse\<close> uses \<open>fullmatch\<close>, so the
  whole line must match. When the line does not match, it raises \<open>CommandParseError\<close>
  with the message \<open>Command does not match pattern: \<close> followed by the original
  pattern. When the line matches and validation of the extracted dictionary fails, it
  raises one \<open>CommandParseError\<close> with the message \<open>Parameters failed to validate.\<close>
  whose cause is the validation error. When the line matches and validation succeeds,
  it returns the validated object. Hence parsing succeeds if and only if the line fully
  matches the pattern and the extracted dictionary validates: a full match alone is not
  enough.
\<close>

theorem regex_parse_outcome:
  "(cpattern line = None \<longrightarrow>
      parser_parse (RegexCommandParser pattern cpattern) sch line =
        Inl (CommandParseError (''Command does not match pattern: '' @ pattern) None)) \<and>
   (cpattern line = Some m \<and> model_validate sch (raw_params sch m) = Inl e \<longrightarrow>
      parser_parse (RegexCommandParser pattern cpattern) sch line =
        Inl (CommandParseError ''Parameters failed to validate.'' (Some e))) \<and>
   (cpattern line = Some m \<and> model_validate sch (raw_params sch m) = Inr s \<longrightarrow>
      parser_parse (RegexCommandParser pattern cpattern) sch line = Inr s) \<and>
   ((\<exists>s'. parser_parse (RegexCommandParser pattern cpattern) sch line = Inr s') \<longleftrightarrow>
    (\<exists>m' s'. cpattern line = Some m' \<and> model_validate sch (raw_params sch m') = Inr s'))"
  by (auto split: option.splits sum.splits)

text \<open>
  The three outcomes on the command \<open>add\<close> of the example game: \<open>abc\<close> does not
  match, \<open>-\<close> matches and fails to validate, \<open>5\<close> parses.
\<close>

theorem regex_parse_outcome_witness:
  "add_fullmatch ''abc'' = None \<and>
   parser_parse (RegexCommandParser add_pattern add_fullmatch) AddCommand_schema ''abc'' =
     Inl (CommandParseError (''Command does not match pattern: '' @ add_pattern) None) \<and>
   add_fullmatch ''-'' = Some \<lparr>groups = [(''value'', [''-''])]\<rparr> \<and>
   model_validate AddCommand_schema (raw_params AddCommand_schema \<lparr>groups = [(''value'', [''-''])]\<rparr>)
     = Inl (ValidationError ''value'') \<and>
   parser_parse (RegexCommandParser add_pattern add_fullmatch) AddCommand_schema ''-'' =
     Inl (CommandParseError ''Parameters failed to validate.'' (Some (ValidationError ''value''))) \<and>
   add_fullmatch ''5'' = Some \<lparr>groups = [(''value'', [''5''])]\<rparr> \<and>
   model_validate AddCommand_schema (raw_params AddCommand_schema \<lparr>groups = [(''value'', [''5''])]\<rparr>)
     = Inr (AddCommand_params 5) \<and>
   parser_parse (RegexCommandParser add_pattern add_fullmatch) AddCommand_schema ''5'' =
     Inr (AddCommand_params 5)"
proof -
  have v1: "model_validate AddCommand_schema
              (raw_params AddCommand_schema \<lparr>groups = [(''value'', [''-''])]\<rparr>)
            = Inl (ValidationError ''value'')"
    by (simp add: add_raw_params match_group_def add_validate_dash)
  have v2: "model_validate AddCommand_schema
              (raw_params AddCommand_schema \<lparr>groups = [(''value'', [''5''])]\<rparr>)
            = Inr (AddCommand_params 5)"
    by (simp add: add_raw_params match_group_def add_validate_5)
  note a = regex_parse_outcome [of add_fullmatch "''abc''" add_pattern AddCommand_schema]
  note b = regex_parse_outcome [of add_fullmatch "''-''" add_pattern AddCommand_schema
      "\<lparr>groups = [(''value'', [''-''])]\<rparr>" "ValidationError ''value''"]
  note c = regex_parse_outcome [of add_fullmatch "''5''" add_pattern AddCommand_schema
      "\<lparr>groups = [(''value'', [''5''])]\<rparr>" _ "AddCommand_params 5"]
  from a have "parser_parse (RegexCommandParser add_pattern add_fullmatch) AddCommand_schema ''abc'' =
     Inl (CommandParseError (''Command does not match pattern: '' @ add_pattern) None)"
    using add_fullmatch_abc by blast
  moreover from b have "parser_parse (RegexCommandParser add_pattern add_fullmatch) AddCommand_schema ''-'' =
     Inl (CommandParseError ''Parameters failed to validate.'' (Some (ValidationError ''value'')))"
    using add_fullmatch_dash v1 by blast
  moreover from c have "parser_parse (RegexCommandParser add_pattern add_fullmatch) AddCommand_schema ''5'' =
     Inr (AddCommand_params 5)"
    using add_fullmatch_5 v2 by blast
  ultimately show ?thesis
    using add_fullmatch_abc add_fullmatch_dash add_fullmatch_5 v1 v2 by blast
qed

text \<open>
  Claim C1 as stated says that parsing succeeds whenever the line fully matches. The
  line \<open>-\<close> fully matches the pattern of \<open>add\<close>, and parsing it fails.
\<close>

theorem full_match_not_sufficient:
  "add_fullmatch ''-'' \<noteq> None \<and>
   parser_parse (RegexCommandParser add_pattern add_fullmatch) AddCommand_schema ''-'' =
     Inl (CommandParseError ''Parameters failed to validate.'' (Some (ValidationError ''value'')))"
  by (simp add: add_fullmatch_dash add_raw_params match_group_def add_validate_dash)




text \<open>
  Claim C7, as the code has it. For a declared field that is not of list type: when its
  named group exists in the pattern and did not take part in the match, the dictionary
  handed to validation holds the field with the explicit value \<open>None\<close>; the field is
  absent from the dictionary when the pattern has no group of its name.
\<close>

theorem unmatched_group_passes_none:
  assumes "distinct (map fst (model_fields sch))"
    and "(name, f) \<in> set (model_fields sch)"
    and "\<not> type_is_list (annotation f)"
  shows "(map_of (groups m) name = Some [] \<longrightarrow> map_of (raw_params sch m) name = Some RNone) \<and>
         (map_of (groups m) name = None \<longrightarrow> map_of (raw_params sch m) name = None)"
proof (intro conjI impI)
  assume "map_of (groups m) name = Some []"
  from map_of_raw_params_present [OF assms(1,2) this] assms(3)
  show "map_of (raw_params sch m) name = Some RNone"
    by (simp add: raw_params_def match_group_def)
next
  assume "map_of (groups m) name = None"
  then show "map_of (raw_params sch m) name = None"
    unfolding raw_params_def by (rule map_of_raw_params_absent)
qed

text \<open>The field \<open>value\<close> with a group that did not fire, and with no such group.\<close>

theorem unmatched_group_passes_none_witness:
  "distinct (map fst (model_fields StepCommand_schema)) \<and>
   (''value'', \<lparr>annotation = PyClass ''int'', description = None\<rparr>)
      \<in> set (model_fields StepCommand_schema) \<and>
   \<not> type_is_list (PyClass ''int'') \<and>
   map_of (groups \<lparr>groups = [(''value'', [])]\<rparr>) ''value'' = Some [] \<and>
   map_of (raw_params StepCommand_schema \<lparr>groups = [(''value'', [])]\<rparr>) ''value'' = Some RNone \<and>
   map_of (groups \<lparr>groups = []\<rparr>) ''value'' = None \<and>
   map_of (raw_params StepCommand_schema \<lparr>groups = []\<rparr>) ''value'' = None"
proof -
  have d: "distinct (map fst (model_fields StepCommand_schema))"
    by (simp add: StepCommand_schema_def)
  have i: "(''value'', \<lparr>annotation = PyClass ''int'', description = None\<rparr>)
      \<in> set (model_fields StepCommand_schema)"
    by (simp add: StepCommand_schema_def)
  have t: "\<not> type_is_list (annotation \<lparr>annotation = PyClass ''int'', description = None\<rparr>)"
    by (simp add: type_is_list_int)
  from unmatched_group_passes_none [OF d i t, of "\<lparr>groups = [(''value'', [])]\<rparr>"]
  have a: "map_of (raw_params StepCommand_schema \<lparr>groups = [(''value'', [])]\<rparr>) ''value''
             = Some RNone"
    by simp
  from unmatched_group_passes_none [OF d i t, of "\<lparr>groups = []\<rparr>"]
  have b: "map_of (raw_params StepCommand_schema \<lparr>groups = []\<rparr>) ''value'' = None"
    by simp
  from a b d i type_is_list_int show ?thesis by simp
qed

text \<open>
  Claim C7 as stated says that the field is absent and the default applies. On the
  empty line the optional group \<open>value\<close> of \<open>StepCommand\<close> does not fire; the
  dictionary handed to validation is \<open>{"value": None}\<close>, not the empty dictionary (on
  which validation would give the default 1), and parsing fails.
\<close>

theorem unmatched_group_not_absent:
  "step_fullmatch [] = Some \<lparr>groups = [(''value'', [])]\<rparr> \<and>
   \<not> type_is_list (PyClass ''int'') \<and>
   raw_params StepCommand_schema \<lparr>groups = [(''value'', [])]\<rparr> = [(''value'', RNone)] \<and>
   model_validate StepCommand_schema [] = Inr (AddCommand_params 1) \<and>
   command_parse StepCommand [] =
     Inl (CommandParseError ''Parameters failed to validate.'' (Some (ValidationError ''value'')))"
proof -
  have r: "raw_params StepCommand_schema \<lparr>groups = [(''value'', [])]\<rparr> = [(''value'', RNone)]"
    by (simp add: raw_params_def StepCommand_schema_def params_entry_def type_is_list_def
          match_group_def)
  have v: "model_validate StepCommand_schema [(''value'', RNone)] = Inl (ValidationError ''value'')"
    by (simp add: StepCommand_schema_def int_field_def)
  have d: "model_validate StepCommand_schema [] = Inr (AddCommand_params 1)"
    by (simp add: StepCommand_schema_def)
  have p: "command_parse StepCommand [] =
     Inl (CommandParseError ''Parameters failed to validate.'' (Some (ValidationError ''value'')))"
    by (simp add: command_parse_def StepCommand_def Command_def step_fullmatch_def r v)
  from r v d p type_is_list_int show ?thesis by (simp add: step_fullmatch_def)
qed

section \<open>The command registry\<close>

text \<open>
  Claim C3. In a game built by the setup phase, registering a command under a name that
  is already present fails (the duplicate-name error is a \<open>ValueError\<close> saying that the
  name is already registered); registering under \<open>help\<close> while \<open>show_help\<close> is set fails
  (the reserved-name error is a \<open>ValueError\<close> saying that \<open>help\<close> cannot be
  registered); in every other case the registration succeeds and the command is
  inserted, at the end of the registry.
\<close>

theorem register_command_outcome:
  assumes "startup (Game cfg) ops = Inr g"
  shows "(name \<in> fst ` set (commands g) \<longrightarrow>
            registered g name c =
              (Some (ValueError (''Command with name \"'' @ name @ ''\" already registered.'')), g)) \<and>
         (show_help (config g) \<and> name = ''help'' \<longrightarrow>
            registered g name c =
              (Some (ValueError
                 ''Cannot register a command named \"help\" when show_help is True.''), g)) \<and>
         (name \<notin> fst ` set (commands g) \<and> \<not> (show_help (config g) \<and> name = ''help'') \<longrightarrow>
            registered g name c = (None, g\<lparr>commands := commands g @ [(name, c)]\<rparr>))"
proof (intro conjI impI)
  assume present: "name \<in> fst ` set (commands g)"
  with fresh_game_help_free [OF assms] have "\<not> (show_help (config g) \<and> name = ''help'')"
    by blast
  with present show "registered g name c =
      (Some (ValueError (''Command with name \"'' @ name @ ''\" already registered.'')), g)"
    by (simp add: registered_def register_command_def)
next
  assume "show_help (config g) \<and> name = ''help''"
  then show "registered g name c =
      (Some (ValueError ''Cannot register a command named \"help\" when show_help is True.''), g)"
    by (simp add: registered_def register_command_def)
next
  assume fresh: "name \<notin> fst ` set (commands g) \<and> \<not> (show_help (config g) \<and> name = ''help'')"
  then have "AList.update name c (commands g) = commands g @ [(name, c)]"
    by (simp add: update_absent)
  with fresh show "registered g name c = (None, g\<lparr>commands := commands g @ [(name, c)]\<rparr>)"
    by (simp add: registered_def register_command_def decorator_def)
qed

text \<open>On the example game: a duplicate, the reserved name and a fresh name.\<close>

theorem register_command_outcome_witness:
  "startup (Game GameConfig) example_setup = Inr ExampleGame \<and>
   ''add'' \<in> fst ` set (commands ExampleGame) \<and>
   registered ExampleGame ''add'' ViewCommand =
     (Some (ValueError ''Command with name \"add\" already registered.''), ExampleGame) \<and>
   show_help (config ExampleGame) \<and>
   registered ExampleGame ''help'' ViewCommand =
     (Some (ValueError ''Cannot register a command named \"help\" when show_help is True.''),
      ExampleGame) \<and>
   ''step'' \<notin> fst ` set (commands ExampleGame) \<and>
   registered ExampleGame ''step'' StepCommand =
     (None, ExampleGame\<lparr>commands := commands ExampleGame @ [(''step'', StepCommand)]\<rparr>)"
proof -
  have a: "''add'' \<in> fst ` set (commands ExampleGame)"
    by (simp add: ExampleGame_def)
  have h: "show_help (config ExampleGame)"
    by (simp add: ExampleGame_def GameConfig_def)
  have s: "''step'' \<notin> fst ` set (commands ExampleGame)"
    by (simp add: ExampleGame_def)
  from register_command_outcome [OF example_startup, of "''add''" ViewCommand] a
  have 1: "registered ExampleGame ''add'' ViewCommand =
     (Some (ValueError ''Command with name \"add\" already registered.''), ExampleGame)"
    by simp
  from register_command_outcome [OF example_startup, of "''help''" ViewCommand] h
  have 2: "registered ExampleGame ''help'' ViewCommand =
     (Some (ValueError ''Cannot register a command named \"help\" when show_help is True.''),
      ExampleGame)"
    by simp
  from register_command_outcome [OF example_startup, of "''step''" StepCommand] s
  have 3: "registered ExampleGame ''step'' StepCommand =
     (None, ExampleGame\<lparr>commands := commands ExampleGame @ [(''step'', StepCommand)]\<rparr>)"
    by simp
  from example_startup a h s 1 2 3 show ?thesis by blast
qed

text \<open>
  Claim C10. A registration is rejected exactly when the name is present or is \<open>help\<close>
  with \<open>show_help\<close> set, and a rejected registration leaves the game, its registry
  included, exactly as it was: the exception is raised before the decorator exists.
\<close>

theorem rejected_registration_atomic:
  "(fst (registered g name c) \<noteq> None \<longleftrightarrow>
      name \<in> fst ` set (commands g) \<or> (show_help (config g) \<and> name = ''help'')) \<and>
   (fst (registered g name c) \<noteq> None \<longrightarrow>
      snd (registered g name c) = g \<and> commands (snd (registered g name c)) = commands g)"
  by (simp add: registered_def register_command_def)

text \<open>Two rejected registrations on the example game.\<close>

theorem rejected_registration_atomic_witness:
  "fst (registered ExampleGame ''add'' StepCommand) \<noteq> None \<and>
   snd (registered ExampleGame ''add'' StepCommand) = ExampleGame \<and>
   commands (snd (registered ExampleGame ''add'' StepCommand)) = commands ExampleGame \<and>
   fst (registered ExampleGame ''help'' StepCommand) \<noteq> None \<and>
   snd (registered ExampleGame ''help'' StepCommand) = ExampleGame"
proof -
  have a: "''add'' \<in> fst ` set (commands ExampleGame)"
    by (simp add: ExampleGame_def)
  have h: "show_help (config ExampleGame)"
    by (simp add: ExampleGame_def GameConfig_def)
  from rejected_registration_atomic [of ExampleGame "''add''" StepCommand] a
  have 1: "fst (registered ExampleGame ''add'' StepCommand) \<noteq> None \<and>
           snd (registered ExampleGame ''add'' StepCommand) = ExampleGame \<and>
           commands (snd (registered ExampleGame ''add'' StepCommand)) = commands ExampleGame"
    by blast
  from rejected_registration_atomic [of ExampleGame "''help''" StepCommand] h
  have 2: "fst (registered ExampleGame ''help'' StepCommand) \<noteq> None \<and>
           snd (registered ExampleGame ''help'' StepCommand) = ExampleGame"
    by blast
  from 1 2 show ?thesis by blast
qed

section \<open>The input loop\<close>

text \<open>
  Claim C4. When the line names a registered command and parses, and a \<open>pre_command\<close>
  task \<open>B\<close>, the command's action and a \<open>post_command\<close> task \<open>H\<close> are all bound, one
  pass of the loop body is \<open>B\<close> on the state, then the action on the state \<open>B\<close> left
  and the parsed parameters, then \<open>H\<close> on the state the action left: each once, in this
  order, each completed before the next starts.
\<close>

theorem hooks_run_in_order:
  assumes "startup (Game cfg) ops = Inr g"
    and "py_split1 line = tok # rest"
    and "map_of (commands g) tok = Some c"
    and "command_parse c (case rest of arg # _ \<Rightarrow> arg | [] \<Rightarrow> []) = Inr params"
    and "tasks g pre_command = Some B"
    and "action c = Some a"
    and "tasks g post_command = Some H"
  shows "user_loop_body g line w =
           await_then (B w) (\<lambda>w1. await_then (action_call a w1 params) (\<lambda>w2. H w2)) \<and>
         (B w = Inr w1 \<longrightarrow> action_call a w1 params = Inr w2 \<longrightarrow> user_loop_body g line w = H w2)"
proof -
  from registered_command_not_help [OF assms(1,3)]
  have nh: "(tok = ''help'' \<and> show_help (config g)) = False" .
  have body: "user_loop_body g line w =
           await_then (B w) (\<lambda>w1. await_then (action_call a w1 params) (\<lambda>w2. H w2))"
    using assms(2-7) by (simp add: user_loop_body_def nh run_task_bound command_execute_def)
  then show ?thesis by (simp add: await_then_def)
qed

text \<open>
  A game whose tasks and action print \<open>B\<close>, \<open>A\<close> and \<open>H\<close>: the line \<open>add 5\<close> prints
  them in this order.
\<close>

theorem hooks_run_in_order_witness:
  "startup (Game GameConfig) logged_setup = Inr LoggedGame \<and>
   py_split1 ''add 5'' = [''add'', ''5''] \<and>
   map_of (commands LoggedGame) ''add'' = Some LoggedCommand \<and>
   command_parse LoggedCommand ''5'' = Inr (AddCommand_params 5) \<and>
   tasks LoggedGame pre_command = Some (says ''B'') \<and>
   action LoggedCommand = Some \<lparr>action_doc = None, action_call = (\<lambda>w params. says ''A'' w)\<rparr> \<and>
   tasks LoggedGame post_command = Some (says ''H'') \<and>
   user_loop_body LoggedGame ''add 5'' world0 =
     Inr (world0\<lparr>stdout := [''B'', ''A'', ''H'']\<rparr>)"
proof -
  have c: "map_of (commands LoggedGame) ''add'' = Some LoggedCommand"
    by (simp add: LoggedGame_def)
  have p: "command_parse LoggedCommand (case [''5''] of arg # _ \<Rightarrow> arg | [] \<Rightarrow> []) =
             Inr (AddCommand_params 5)"
    by (simp add: logged_command_parse_5)
  have b: "tasks LoggedGame pre_command = Some (says ''B'')"
    by (simp add: LoggedGame_def)
  have a: "action LoggedCommand = Some \<lparr>action_doc = None, action_call = (\<lambda>w params. says ''A'' w)\<rparr>"
    by (simp add: LoggedCommand_def register_action_def)
  have h: "tasks LoggedGame post_command = Some (says ''H'')"
    by (simp add: LoggedGame_def)
  from hooks_run_in_order [OF logged_startup split_add_5 c p b a h, of world0]
  have "user_loop_body LoggedGame ''add 5'' world0 =
     Inr (world0\<lparr>stdout := [''B'', ''A'', ''H'']\<rparr>)"
    by (simp add: await_then_def says_def py_print_def world0_def)
  with logged_startup split_add_5 c logged_command_parse_5 b a h show ?thesis by blast
qed

text \<open>
  Claim C5. When the line names a registered command and \<open>Command.parse\<close> raises
  \<open>CommandParseError\<close>, the loop body prints the error's message and nothing else,
  leaves the data as it was whatever the tasks and the action are (none of them is run),
  and completes normally. The loop goes on: run on this line alone it ends normally in
  that state, and run on this line and further ones it handles the next line in that
  state and then the rest, as if the failed line had only printed its message.
\<close>

theorem parse_error_is_reported:
  assumes "startup (Game cfg) ops = Inr g"
    and "py_split1 line = tok # rest"
    and "map_of (commands g) tok = Some c"
    and "command_parse c (case rest of arg # _ \<Rightarrow> arg | [] \<Rightarrow> []) =
           Inl (CommandParseError msg cause)"
  shows "user_loop_body g line w = Inr (w\<lparr>stdout := stdout w @ [msg]\<rparr>) \<and>
         user_loop g (line # lines) w = user_loop g lines (w\<lparr>stdout := stdout w @ [msg]\<rparr>) \<and>
         user_loop g [line] w = Inr (w\<lparr>stdout := stdout w @ [msg]\<rparr>) \<and>
         user_loop g [line, nxt] w = user_loop_body g nxt (w\<lparr>stdout := stdout w @ [msg]\<rparr>) \<and>
         user_loop g (line # nxt # lines) w =
           (case user_loop_body g nxt (w\<lparr>stdout := stdout w @ [msg]\<rparr>) of
              Inl e \<Rightarrow> Inl e
            | Inr w' \<Rightarrow> user_loop g lines w')"
proof -
  from registered_command_not_help [OF assms(1,3)]
  have nh: "(tok = ''help'' \<and> show_help (config g)) = False" .
  have body: "user_loop_body g line w = Inr (w\<lparr>stdout := stdout w @ [msg]\<rparr>)"
    using assms(2-4) by (simp add: user_loop_body_def nh py_print_def)
  then show ?thesis by (simp split: sum.splits)
qed

text \<open>
  The line \<open>add abc\<close> in the example game: the message names the pattern, and the
  next line \<open>add 5\<close> is carried out, once, on the untouched data.
\<close>

theorem parse_error_is_reported_witness:
  "startup (Game GameConfig) example_setup = Inr ExampleGame \<and>
   py_split1 ''add abc'' = [''add'', ''abc''] \<and>
   map_of (commands ExampleGame) ''add'' = Some AddCommand \<and>
   command_parse AddCommand ''abc'' =
     Inl (CommandParseError (''Command does not match pattern: '' @ add_pattern) None) \<and>
   user_loop_body ExampleGame ''add abc'' world0 =
     Inr (world0\<lparr>stdout := [''Command does not match pattern: '' @ add_pattern]\<rparr>) \<and>
   user_loop ExampleGame [''add abc''] world0 =
     Inr (world0\<lparr>stdout := [''Command does not match pattern: '' @ add_pattern]\<rparr>) \<and>
   user_loop ExampleGame [''add abc'', ''add 5''] world0 =
     Inr \<lparr>data = \<lparr>timer = 0, n_actions = 1, counter = 5\<rparr>,
          stdout = [''Command does not match pattern: '' @ add_pattern]\<rparr>"
proof -
  have c: "map_of (commands ExampleGame) ''add'' = Some AddCommand"
    by (simp add: ExampleGame_def)
  have p: "command_parse AddCommand (case [''abc''] of arg # _ \<Rightarrow> arg | [] \<Rightarrow> []) =
     Inl (CommandParseError (''Command does not match pattern: '' @ add_pattern) None)"
    by (simp add: add_command_parse_abc)
  note t = parse_error_is_reported [OF example_startup split_add_abc c p,
      where w = world0 and lines = "[]" and nxt = "''add 5''"]
  have w': "world0\<lparr>stdout := stdout world0 @ [''Command does not match pattern: '' @ add_pattern]\<rparr>
             = world0\<lparr>stdout := [''Command does not match pattern: '' @ add_pattern]\<rparr>"
    by (simp add: world0_def)
  note t' = t [unfolded w']
  from t' have b: "user_loop_body ExampleGame ''add abc'' world0 =
     Inr (world0\<lparr>stdout := [''Command does not match pattern: '' @ add_pattern]\<rparr>)"
    by blast
  from t' have l1: "user_loop ExampleGame [''add abc''] world0 =
     Inr (world0\<lparr>stdout := [''Command does not match pattern: '' @ add_pattern]\<rparr>)"
    by blast
  from t' have "user_loop ExampleGame [''add abc'', ''add 5''] world0 =
     user_loop_body ExampleGame ''add 5''
       (world0\<lparr>stdout := [''Command does not match pattern: '' @ add_pattern]\<rparr>)"
    by blast
  then have l2: "user_loop ExampleGame [''add abc'', ''add 5''] world0 =
     Inr \<lparr>data = \<lparr>timer = 0, n_actions = 1, counter = 5\<rparr>,
          stdout = [''Command does not match pattern: '' @ add_pattern]\<rparr>"
    by (simp add: add_body_5 world0_def example_data0_def del: user_loop.simps)
  from b l1 l2 example_startup split_add_abc c add_command_parse_abc show ?thesis by blast
qed

text \<open>
  Claim C9. In a game built by the setup phase with \<open>show_help\<close> set, \<open>help\<close> is never
  a key of the registry, so the line \<open>help help\<close> prints \<open>Command "help" not found.\<close>;
  \<open>help\<close> with an argument prints a command's help message exactly when the argument
  is registered, and the not-found message otherwise.
\<close>

theorem help_is_not_a_command:
  assumes "startup (Game cfg) ops = Inr g" and "show_help cfg"
  shows "map_of (commands g) ''help'' = None \<and>
         user_loop_body g ''help help'' w =
           Inr (w\<lparr>stdout := stdout w @ [''Command \"help\" not found.'']\<rparr>) \<and>
         (py_split1 line = [''help'', arg] \<longrightarrow>
            user_loop_body g line w =
              Inr (w\<lparr>stdout := stdout w @
                     [case map_of (commands g) arg of
                        Some c \<Rightarrow> command_help_message c
                      | None \<Rightarrow> ''Command \"'' @ arg @ ''\" not found.'']\<rparr>))"
proof -
  from startup_config [OF assms(1)] assms(2) have sh: "show_help (config g)"
    by (simp add: Game_def)
  from fresh_game_help_unbound [OF assms(1) sh]
  have nh: "map_of (commands g) ''help'' = None" .
  have arg: "py_split1 line = [''help'', arg] \<Longrightarrow>
            user_loop_body g line w =
              Inr (w\<lparr>stdout := stdout w @
                     [case map_of (commands g) arg of
                        Some c \<Rightarrow> command_help_message c
                      | None \<Rightarrow> ''Command \"'' @ arg @ ''\" not found.'']\<rparr>)" for line arg
    using sh by (simp add: user_loop_body_def py_print_def not_found_def split: option.splits)
  from arg [OF split_help_help] nh
  have "user_loop_body g ''help help'' w =
           Inr (w\<lparr>stdout := stdout w @ [''Command \"help\" not found.'']\<rparr>)"
    by simp
  with nh arg show ?thesis by blast
qed

text \<open>The example game.\<close>

theorem help_is_not_a_command_witness:
  "startup (Game GameConfig) example_setup = Inr ExampleGame \<and>
   show_help GameConfig \<and>
   user_loop_body ExampleGame ''help help'' world0 =
     Inr (world0\<lparr>stdout := [''Command \"help\" not found.'']\<rparr>)"
proof -
  have sh: "show_help GameConfig"
    by (simp add: GameConfig_def)
  from help_is_not_a_command [OF example_startup sh, of world0]
  have "user_loop_body ExampleGame ''help help'' world0 =
     Inr (world0\<lparr>stdout := [''Command \"help\" not found.'']\<rparr>)"
    by (simp add: world0_def)
  with example_startup sh show ?thesis by blast
qed

section \<open>Commands\<close>

text \<open>
  Claim C6. \<open>execute\<close> on a command with no action bound returns normally and leaves
  the whole state, data and output, as it was.
\<close>

theorem execute_without_action:
  "action c = None \<Longrightarrow> command_execute c w params = Inr w"
  by (simp add: command_execute_def)

text \<open>A command as \<open>create_command\<close> leaves it, before any action is registered.\<close>

theorem execute_without_action_witness:
  "action StepCommand = None \<and>
   command_execute StepCommand world0 (AddCommand_params 5) = Inr world0"
  using execute_without_action [of StepCommand world0 "AddCommand_params 5"]
  by (simp add: StepCommand_def Command_def)

text \<open>
  Claim C8 at a command whose action is bound and has no docstring: the help message
  starts with \<open>None\<close>, where the claim has the placeholder. \<open>help_message\<close> tests
  whether the action is \<open>None\<close>, not whether its docstring is.
\<close>

theorem help_message_without_docstring:
  "action LoggedCommand = Some \<lparr>action_doc = None, action_call = (\<lambda>w params. says ''A'' w)\<rparr> \<and>
   command_help_message LoggedCommand =
     ''None'' @ [CHR 0x0A, CHR 0x0A] @ ''Usage:'' @ [CHR 0x0A] @ ''    Pattern: '' @ add_pattern
       @ [CHR 0x0A, CHR 0x0A] @ ''Parameters:'' @ [CHR 0x0A]
       @ ''    value: The value to add to the counter.''"
  by (simp add: command_help_message_def LoggedCommand_def register_action_def Command_def
        py_format_def tab_def eval_nat_numeral param_docs_def AddCommand_schema_def)

end
